theory Spec2Isabelle
  imports Main "HOL-Library.Word"
begin

unbundle bit_operations_syntax

section \<open>Go library functions used by package rag\<close>

text \<open>
  A Go \<open>string\<close> is a sequence of bytes; it is modelled as a \<open>char list\<close> (an Isabelle
  \<open>char\<close> is one byte). The functions of package \<open>strings\<close> that the package calls have
  a byte-wise fast path for ASCII input and fall back to the Unicode tables otherwise.
  The fast paths are modelled as they are written in the Go library; the Unicode
  fall-backs, whose tables are not part of the repository, are parameters.
\<close>

record unicode =
  MapToLower :: "string \<Rightarrow> string"  \<comment> \<open>\<open>strings.Map(unicode.ToLower, s)\<close>\<close>
  TrimFuncIsSpace :: "string \<Rightarrow> string"  \<comment> \<open>\<open>strings.TrimFunc(s, unicode.IsSpace)\<close>\<close>
  TrimRightFuncIsSpace :: "string \<Rightarrow> string"  \<comment> \<open>\<open>strings.TrimRightFunc(s, unicode.IsSpace)\<close>\<close>

text \<open>An instance of the parameter for ASCII inputs, on which it is never consulted.\<close>

definition asciiOnly :: unicode where
  "asciiOnly = \<lparr>MapToLower = (\<lambda>s. s), TrimFuncIsSpace = (\<lambda>s. s), TrimRightFuncIsSpace = (\<lambda>s. s)\<rparr>"

definition isASCIIbyte :: "char \<Rightarrow> bool" where
  "isASCIIbyte c \<longleftrightarrow> (of_char c :: nat) < 128"

definition upperLetters :: string where
  "upperLetters = ''ABCDEFGHIJKLMNOPQRSTUVWXYZ''"

definition lowerLetters :: string where
  "lowerLetters = ''abcdefghijklmnopqrstuvwxyz''"

definition asciiToLower :: "char \<Rightarrow> char" where
  \<comment> \<open>\<open>if 'A' <= c && c <= 'Z' { c += 'a' - 'A' }\<close>\<close>
  "asciiToLower c = (case map_of (zip upperLetters lowerLetters) c of Some l \<Rightarrow> l | None \<Rightarrow> c)"

definition ToLower :: "unicode \<Rightarrow> string \<Rightarrow> string" where
  "ToLower U s = (if list_all isASCIIbyte s then map asciiToLower s else MapToLower U s)"

definition asciiSpace :: "char \<Rightarrow> bool" where
  \<comment> \<open>\<open>'\t', '\n', '\v', '\f', '\r', ' '\<close>\<close>
  "asciiSpace c \<longleftrightarrow> c \<in> set [CHR 0x09, CHR 0x0A, CHR 0x0B, CHR 0x0C, CHR 0x0D, CHR '' '']"

function trimStop :: "unicode \<Rightarrow> string \<Rightarrow> string" where
  "trimStop U s =
     (if s = [] then []
      else if \<not> isASCIIbyte (last s) then TrimRightFuncIsSpace U s
      else if asciiSpace (last s) then trimStop U (butlast s)
      else s)"
  by pat_completeness auto
termination
  by (relation "measure (\<lambda>(U, s). length s)") auto

declare trimStop.simps [simp del]

fun TrimSpace :: "unicode \<Rightarrow> string \<Rightarrow> string" where
  "TrimSpace U [] = []"
| "TrimSpace U (c # cs) =
     (if \<not> isASCIIbyte c then TrimFuncIsSpace U (c # cs)
      else if asciiSpace c then TrimSpace U cs
      else trimStop U (c # cs))"

fun Split :: "string \<Rightarrow> char \<Rightarrow> string list" where
  \<comment> \<open>\<open>strings.Split(s, sep)\<close> for a separator of one byte\<close>
  "Split [] sep = [[]]"
| "Split (c # cs) sep =
     (if c = sep then [] # Split cs sep
      else (case Split cs sep of [] \<Rightarrow> [[c]] | x # xs \<Rightarrow> (c # x) # xs))"

definition HasPrefix :: "string \<Rightarrow> string \<Rightarrow> bool" where
  \<comment> \<open>\<open>len(s) >= len(prefix) && s[:len(prefix)] == prefix\<close>\<close>
  "HasPrefix s pre \<longleftrightarrow> length s \<ge> length pre \<and> take (length pre) s = pre"

fun Contains :: "string \<Rightarrow> string \<Rightarrow> bool" where
  "Contains [] substr = (substr = [])"
| "Contains (c # cs) substr = (HasPrefix (c # cs) substr \<or> Contains cs substr)"

subsection \<open>\<open>filepath.Clean\<close> (Unix)\<close>

definition IsPathSeparator :: "char \<Rightarrow> bool" where
  "IsPathSeparator c \<longleftrightarrow> c = CHR ''/''"

function backtrack :: "string \<Rightarrow> nat \<Rightarrow> nat \<Rightarrow> nat" where
  \<comment> \<open>\<open>for out.w > dotdot && !os.IsPathSeparator(out.index(out.w)) { out.w-- }\<close>\<close>
  "backtrack buf dotdot w =
     (if w > dotdot \<and> \<not> IsPathSeparator (buf ! w) then backtrack buf dotdot (w - 1) else w)"
  by pat_completeness auto
termination
  by (relation "measure (\<lambda>(buf, dotdot, w). w)") auto

declare backtrack.simps [simp del]

definition cleanStep :: "bool \<Rightarrow> char \<Rightarrow> string \<Rightarrow> string \<Rightarrow> nat \<Rightarrow> string \<times> string \<times> nat" where
  \<comment> \<open>one iteration of the loop \<open>for r < n\<close>: \<open>c # cs\<close> is \<open>path[r:]\<close>, \<open>out\<close> is the buffer
     written so far (\<open>out.w = length out\<close>); the result is the rest of the path, the buffer
     and \<open>dotdot\<close> after the iteration\<close>
  "cleanStep rooted c cs out dotdot =
     (if IsPathSeparator c then (cs, out, dotdot)
      else if c = CHR ''.'' \<and> (cs = [] \<or> IsPathSeparator (cs ! 0)) then (cs, out, dotdot)
      else if c = CHR ''.'' \<and> cs ! 0 = CHR ''.'' \<and> (length cs = 1 \<or> IsPathSeparator (cs ! 1)) then
        (if length out > dotdot then
           (drop 1 cs, take (backtrack out dotdot (length out - 1)) out, dotdot)
         else if \<not> rooted then
           (drop 1 cs, (if length out > 0 then out @ ''/'' else out) @ ''..'',
            length ((if length out > 0 then out @ ''/'' else out) @ ''..''))
         else (drop 1 cs, out, dotdot))
      else
        (dropWhile (\<lambda>x. \<not> IsPathSeparator x) cs,
         (if rooted \<and> length out \<noteq> 1 \<or> \<not> rooted \<and> length out \<noteq> 0 then out @ ''/'' else out)
           @ c # takeWhile (\<lambda>x. \<not> IsPathSeparator x) cs,
         dotdot))"

lemma cleanStep_shorter: "length (fst (cleanStep rooted c cs out dotdot)) \<le> length cs"
  unfolding cleanStep_def
  by (simp only: fst_conv length_drop split: if_split) (simp add: length_dropWhile_le)

function cleanLoop :: "bool \<Rightarrow> string \<Rightarrow> string \<Rightarrow> nat \<Rightarrow> string" where
  "cleanLoop rooted [] out dotdot = out"
| "cleanLoop rooted (c # cs) out dotdot =
     (case cleanStep rooted c cs out dotdot of
        (path', out', dotdot') \<Rightarrow> cleanLoop rooted path' out' dotdot')"
  by pat_completeness auto
termination
proof (relation "measure (\<lambda>(rooted, path, out, dotdot). length path)", goal_cases)
  case 1
  show ?case by simp
next
  case (2 rooted c cs out dotdot x y xa ya)
  have "length (fst (cleanStep rooted c cs out dotdot)) \<le> length cs"
    by (rule cleanStep_shorter)
  with 2(1) [symmetric] show ?case by simp
qed

definition Clean :: "string \<Rightarrow> string" where
  "Clean path =
     (if path = [] then ''.''
      else
        (let rooted = IsPathSeparator (hd path);
             out = (if rooted then cleanLoop rooted (tl path) ''/'' 1
                    else cleanLoop rooted path [] 0)
         in if out = [] then ''.'' else out))"

definition Join :: "string list \<Rightarrow> string" where
  \<comment> \<open>\<open>filepath.Join\<close>: the elements from the first non-empty one on, joined by the separator
     and cleaned; empty when every element is empty\<close>
  "Join elem =
     (case dropWhile (\<lambda>e. e = []) elem of
        [] \<Rightarrow> []
      | e # es \<Rightarrow> Clean (foldl (\<lambda>acc x. acc @ ''/'' @ x) e es))"

definition Dir :: "string \<Rightarrow> string" where
  \<comment> \<open>\<open>filepath.Dir\<close>: cut after the last separator, then clean\<close>
  "Dir path = Clean (rev (dropWhile (\<lambda>c. \<not> IsPathSeparator c) (rev path)))"





subsection \<open>Decimal formatting (\<open>%d\<close>)\<close>

function natToDec :: "nat \<Rightarrow> string" where
  "natToDec n =
     (if n < 10 then [''0123456789'' ! n]
      else natToDec (n div 10) @ [''0123456789'' ! (n mod 10)])"
  by pat_completeness auto
termination
  by (relation "measure (\<lambda>n. n)") auto

declare natToDec.simps [simp del]

definition Itoa :: "int \<Rightarrow> string" where
  "Itoa i = (if i < 0 then ''-'' @ natToDec (nat (- i)) else natToDec (nat i))"

subsection \<open>\<open>crypto/sha256\<close> and \<open>encoding/hex\<close>\<close>

type_synonym u32 = int

text \<open>
  A \<open>uint32\<close> is an integer from 0 up to \<open>2 ^ 32 - 1\<close>; its addition wraps modulo
  \<open>2 ^ 32\<close>, which is written out.
\<close>

definition K256 :: "u32 list" where
  "K256 =
    [0x428A2F98, 0x71374491, 0xB5C0FBCF, 0xE9B5DBA5, 0x3956C25B, 0x59F111F1, 0x923F82A4, 0xAB1C5ED5,
     0xD807AA98, 0x12835B01, 0x243185BE, 0x550C7DC3, 0x72BE5D74, 0x80DEB1FE, 0x9BDC06A7, 0xC19BF174,
     0xE49B69C1, 0xEFBE4786, 0x0FC19DC6, 0x240CA1CC, 0x2DE92C6F, 0x4A7484AA, 0x5CB0A9DC, 0x76F988DA,
     0x983E5152, 0xA831C66D, 0xB00327C8, 0xBF597FC7, 0xC6E00BF3, 0xD5A79147, 0x06CA6351, 0x14292967,
     0x27B70A85, 0x2E1B2138, 0x4D2C6DFC, 0x53380D13, 0x650A7354, 0x766A0ABB, 0x81C2C92E, 0x92722C85,
     0xA2BFE8A1, 0xA81A664B, 0xC24B8B70, 0xC76C51A3, 0xD192E819, 0xD6990624, 0xF40E3585, 0x106AA070,
     0x19A4C116, 0x1E376C08, 0x2748774C, 0x34B0BCB5, 0x391C0CB3, 0x4ED8AA4A, 0x5B9CCA4F, 0x682E6FF3,
     0x748F82EE, 0x78A5636F, 0x84C87814, 0x8CC70208, 0x90BEFFFA, 0xA4506CEB, 0xBEF9A3F7, 0xC67178F2]"

definition init256 :: "u32 list" where
  "init256 =
    [0x6A09E667, 0xBB67AE85, 0x3C6EF372, 0xA54FF53A, 0x510E527F, 0x9B05688C, 0x1F83D9AB, 0x5BE0CD19]"

definition add32 :: "u32 \<Rightarrow> u32 \<Rightarrow> u32" where
  "add32 a b = (a + b) mod 4294967296"

definition not32 :: "u32 \<Rightarrow> u32" where
  \<comment> \<open>\<open>^e\<close>\<close>
  "not32 e = 4294967295 - e"

definition rotr32 :: "nat \<Rightarrow> u32 \<Rightarrow> u32" where
  \<comment> \<open>\<open>bits.RotateLeft32(x, -n)\<close>\<close>
  "rotr32 n x = (x div 2 ^ n) OR ((x * 2 ^ (32 - n)) mod 4294967296)"

definition byteWord :: "char \<Rightarrow> u32" where
  "byteWord c = int (of_char c)"

fun beWords :: "string \<Rightarrow> u32 list" where
  \<comment> \<open>\<open>w[i] = uint32(p[j])<<24 | uint32(p[j+1])<<16 | uint32(p[j+2])<<8 | uint32(p[j+3])\<close>\<close>
  "beWords (a # b # c # d # rest) =
     (byteWord a * 16777216 + byteWord b * 65536 + byteWord c * 256 + byteWord d) # beWords rest"
| "beWords _ = []"

fun schedule :: "nat \<Rightarrow> u32 list \<Rightarrow> u32 list" where
  \<comment> \<open>the message schedule \<open>w[16..63]\<close>; the first argument counts the words still to add\<close>
  "schedule 0 w = w"
| "schedule (Suc n) w =
     (let i = length w;
          v1 = w ! (i - 2);
          t1 = (rotr32 17 v1 XOR rotr32 19 v1) XOR (v1 div 2 ^ 10);
          v2 = w ! (i - 15);
          t2 = (rotr32 7 v2 XOR rotr32 18 v2) XOR (v2 div 2 ^ 3)
      in schedule n (w @ [add32 (add32 (add32 t1 (w ! (i - 7))) t2) (w ! (i - 16))]))"

fun rounds :: "u32 list \<Rightarrow> u32 list \<Rightarrow> u32 list \<Rightarrow> u32 list" where
  \<comment> \<open>the 64 rounds on the working variables \<open>a..h\<close>, over \<open>_K[i]\<close> and \<open>w[i]\<close>\<close>
  "rounds [a, b, c, d, e, f, g, h] (k # ks) (wi # ws) =
     (let t1 = add32 (add32 (add32 (add32 h ((rotr32 6 e XOR rotr32 11 e) XOR rotr32 25 e))
                                   ((e AND f) XOR (not32 e AND g))) k) wi;
          t2 = add32 ((rotr32 2 a XOR rotr32 13 a) XOR rotr32 22 a)
                     (((a AND b) XOR (a AND c)) XOR (b AND c))
      in rounds [add32 t1 t2, a, b, c, add32 d t1, e, f, g] ks ws)"
| "rounds st _ _ = st"

definition block :: "u32 list \<Rightarrow> string \<Rightarrow> u32 list" where
  "block hs p = map2 add32 hs (rounds hs K256 (schedule 48 (beWords p)))"

function blocks :: "u32 list \<Rightarrow> string \<Rightarrow> u32 list" where
  \<comment> \<open>\<open>for len(p) >= chunk { ...; p = p[chunk:] }\<close>\<close>
  "blocks hs p = (if length p \<ge> 64 then blocks (block hs (take 64 p)) (drop 64 p) else hs)"
  by pat_completeness auto
termination
  by (relation "measure (\<lambda>(hs, p). length p)") auto

declare blocks.simps [simp del]

definition bigEndian :: "nat \<Rightarrow> int \<Rightarrow> string" where
  \<comment> \<open>the low \<open>n\<close> bytes of an integer, most significant first\<close>
  "bigEndian n x = map (\<lambda>i. char_of ((x div 256 ^ (n - 1 - i)) mod 256)) [0..<n]"

definition pad :: "string \<Rightarrow> string" where
  \<comment> \<open>the message, \<open>0x80\<close>, zeros up to 56 modulo 64, and the length in bits as a
     \<open>uint64\<close>\<close>
  "pad msg =
     msg @ [CHR 0x80] @ replicate ((119 - length msg mod 64) mod 64) (CHR 0x00)
       @ bigEndian 8 ((int (length msg) * 8) mod 18446744073709551616)"

definition Sum256 :: "string \<Rightarrow> string" where
  "Sum256 msg = concat (map (bigEndian 4) (blocks init256 (pad msg)))"

definition hextable :: string where
  "hextable = ''0123456789abcdef''"

definition EncodeToString :: "string \<Rightarrow> string" where
  \<comment> \<open>\<open>dst[j] = hextable[v>>4]; dst[j+1] = hextable[v&0x0f]\<close>\<close>
  "EncodeToString src =
     concat (map (\<lambda>v. [hextable ! (of_char v div 16), hextable ! (of_char v mod 16)]) src)"

section \<open>Errors (errors.go)\<close>

datatype error =
    ErrInvalidURL string
  | ErrInvalidPath string
  | ErrDownloadFailed string string  \<comment> \<open>URL, Reason\<close>
  | ErrCacheError string string  \<comment> \<open>Operation, Reason\<close>
  | ErrInvalidConfig string
  | ErrFileTooLarge "64 word" "64 word"  \<comment> \<open>Size, MaxSize (int64)\<close>
  | ErrNotTextFile string
  | ErrPathTraversal string
  | Wrapped string error  \<comment> \<open>\<open>fmt.Errorf("...: %w", err)\<close>\<close>
  | LibError string  \<comment> \<open>an error value of a Go library (os, net, json, context)\<close>

section \<open>Path validation (ValidatePath)\<close>

definition ValidatePath :: "string \<Rightarrow> error + unit" where
  "ValidatePath path =
     (if Contains path ''..'' then Inl (ErrPathTraversal path)
      else
        (let cleanPath = Clean path
         in if Contains cleanPath ''..'' then Inl (ErrPathTraversal path)
            else Inr ()))"

section \<open>Content type check (isTextContentType)\<close>

definition textTypes :: "string list" where
  "textTypes =
     [''text/'',
      ''application/json'',
      ''application/xml'',
      ''application/javascript'',
      ''application/x-yaml'',
      ''application/yaml'']"

fun anyHasPrefix :: "string \<Rightarrow> string list \<Rightarrow> bool" where
  \<comment> \<open>\<open>for _, textType := range textTypes { if strings.HasPrefix(contentType, textType) { return true } }; return false\<close>\<close>
  "anyHasPrefix contentType [] = False"
| "anyHasPrefix contentType (textType # rest) =
     (if HasPrefix contentType textType then True else anyHasPrefix contentType rest)"

definition isTextContentType :: "unicode \<Rightarrow> string \<Rightarrow> bool" where
  "isTextContentType U contentType =
     (let contentType1 = hd (Split contentType CHR '';'');
          contentType2 = TrimSpace U (ToLower U contentType1)
      in anyHasPrefix contentType2 textTypes)"

text \<open>
  The text-likeness check as the specification words it: strip everything from the first
  \<open>;\<close>, lower-case, and accept exactly the members of the allow-list (any type under
  \<open>text/\<close>, or one of the five listed \<open>application/\<close> types).
\<close>

definition spec_isTextLike :: "unicode \<Rightarrow> string \<Rightarrow> bool" where
  "spec_isTextLike U header =
     (let t = ToLower U (takeWhile (\<lambda>c. c \<noteq> CHR '';'') header)
      in HasPrefix t ''text/'' \<or>
         t \<in> set [''application/json'', ''application/xml'', ''application/javascript'',
                   ''application/x-yaml'', ''application/yaml''])"

section \<open>Cache keys, paths and metadata\<close>

type_synonym int64 = "64 word"

record Time =
  instant :: int  \<comment> \<open>nanoseconds since the epoch\<close>
  monotonic :: "int option"  \<comment> \<open>the monotonic clock reading that \<open>time.Now\<close> attaches\<close>
  location :: string

record CacheMetadata =
  URL :: string
  DownloadedAt :: Time
  ContentHash :: string
  ETag :: string
  LastModified :: string
  ContentType :: string
  Size :: int64

definition metadataExt :: string where
  "metadataExt = ''.meta.json''"

definition documentExt :: string where
  "documentExt = ''.txt''"

definition hashURL :: "string \<Rightarrow> string" where
  "hashURL url = EncodeToString (Sum256 url)"

definition GetCachedDocumentPath :: "string \<Rightarrow> string \<Rightarrow> string" where
  "GetCachedDocumentPath cacheDir url = Join [cacheDir, ''documents'', hashURL url @ documentExt]"

definition GetCachedMetadataPath :: "string \<Rightarrow> string \<Rightarrow> string" where
  "GetCachedMetadataPath cacheDir url = Join [cacheDir, ''documents'', hashURL url @ metadataExt]"

definition ComputeContentHash :: "string \<Rightarrow> string" where
  "ComputeContentHash content = EncodeToString (Sum256 content)"

section \<open>The world outside the program\<close>

text \<open>
  The network, the file system, the clock and the libraries that are not part of the
  repository are an environment of oracles; what the program does to the outside is
  recorded in the world: the content of the files it wrote and a trace of events in the
  order in which they happened.
\<close>

datatype level = Debug | Info | Warn

datatype logarg = S string | E error | N int

record request =
  reqMethod :: string
  reqURL :: string
  reqHeader :: "(string \<times> string) list"  \<comment> \<open>the headers set, in the order of the calls of \<open>Header.Set\<close>\<close>

record response =
  StatusCode :: int
  Header :: "string \<Rightarrow> string"  \<comment> \<open>\<open>resp.Header.Get\<close>; the empty string for an absent header\<close>
  ContentLength :: int64  \<comment> \<open>\<open>-1\<close> when the length is unknown\<close>
  Body :: string  \<comment> \<open>the bytes the body delivers\<close>
  BodyErr :: "string option"  \<comment> \<open>a read error after those bytes, instead of the end of file\<close>

datatype event =
    EvRequest request  \<comment> \<open>\<open>httpClient.Do\<close>\<close>
  | EvReadBody nat  \<comment> \<open>\<open>io.ReadAll\<close> on the body; the number of bytes taken from it\<close>
  | EvMkdirAll string
  | EvWriteFile string string bool  \<comment> \<open>path, data, success\<close>
  | EvLog level string "logarg list"  \<comment> \<open>a call of the logger: format and arguments\<close>

record world =
  files :: "string \<rightharpoonup> string"
  events :: "event list"

record env =
  unicodeTables :: unicode
  urlParse :: "string \<Rightarrow> string + (string \<times> string)"  \<comment> \<open>\<open>url.Parse\<close>: an error, or scheme and host\<close>
  httpDo :: "request \<Rightarrow> (string \<times> string) + response"
    \<comment> \<open>\<open>httpClient.Do\<close>: a response, or the quoted URL and the cause of a \<open>*url.Error\<close>\<close>
  now :: Time
  statErr :: "string \<Rightarrow> string option"  \<comment> \<open>a failure of \<open>os.Stat\<close> other than "does not exist"\<close>
  readErr :: "string \<Rightarrow> string option"
  mkdirErr :: "string \<Rightarrow> string option"
  writeErr :: "string \<Rightarrow> string option"
  partialWrite :: "string \<Rightarrow> string \<Rightarrow> string option"
    \<comment> \<open>what a failed \<open>os.WriteFile\<close> leaves at the path\<close>
  jsonMarshal :: "CacheMetadata \<Rightarrow> string + string"  \<comment> \<open>\<open>json.MarshalIndent(meta, "", "  ")\<close>\<close>
  jsonUnmarshal :: "string \<Rightarrow> string + CacheMetadata"

definition logf :: "world \<Rightarrow> level \<Rightarrow> string \<Rightarrow> logarg list \<Rightarrow> world" where
  "logf w lvl fmt args = w\<lparr>events := events w @ [EvLog lvl fmt args]\<rparr>"

datatype statres = StatOk | StatNotExist | StatErr string

definition osStat :: "env \<Rightarrow> world \<Rightarrow> string \<Rightarrow> statres" where
  "osStat en w path =
     (case statErr en path of
        Some e \<Rightarrow> StatErr e
      | None \<Rightarrow> (case files w path of None \<Rightarrow> StatNotExist | Some data \<Rightarrow> StatOk))"

definition ReadFile :: "env \<Rightarrow> world \<Rightarrow> string \<Rightarrow> error + string" where
  "ReadFile en w path =
     (case readErr en path of
        Some e \<Rightarrow> Inl (LibError e)
      | None \<Rightarrow>
          (case files w path of
             None \<Rightarrow> Inl (LibError ''no such file or directory'')
           | Some data \<Rightarrow> Inr data))"

definition MkdirAll :: "env \<Rightarrow> world \<Rightarrow> string \<Rightarrow> (error + unit) \<times> world" where
  "MkdirAll en w path =
     (case mkdirErr en path of
        Some e \<Rightarrow> (Inl (LibError e), w)
      | None \<Rightarrow> (Inr (), w\<lparr>events := events w @ [EvMkdirAll path]\<rparr>))"

definition WriteFile :: "env \<Rightarrow> world \<Rightarrow> string \<Rightarrow> string \<Rightarrow> (error + unit) \<times> world" where
  "WriteFile en w path data =
     (case writeErr en path of
        Some e \<Rightarrow>
          (Inl (LibError e),
           w\<lparr>files := (files w)(path := partialWrite en path data),
             events := events w @ [EvWriteFile path data False]\<rparr>)
      | None \<Rightarrow>
          (Inr (),
           w\<lparr>files := (files w)(path \<mapsto> data),
             events := events w @ [EvWriteFile path data True]\<rparr>))"

definition LoadMetadata :: "env \<Rightarrow> world \<Rightarrow> string \<Rightarrow> error + CacheMetadata" where
  "LoadMetadata en w path =
     (case ReadFile en w path of
        Inl err \<Rightarrow> Inl (Wrapped ''failed to read metadata file'' err)
      | Inr data \<Rightarrow>
          (case jsonUnmarshal en data of
             Inl err \<Rightarrow> Inl (Wrapped ''failed to parse metadata'' (LibError err))
           | Inr meta \<Rightarrow> Inr meta))"

definition SaveMetadata :: "env \<Rightarrow> world \<Rightarrow> string \<Rightarrow> CacheMetadata \<Rightarrow> (error + unit) \<times> world" where
  "SaveMetadata en w path meta =
     (case MkdirAll en w (Dir path) of
        (Inl err, w1) \<Rightarrow> (Inl (Wrapped ''failed to create metadata directory'' err), w1)
      | (Inr u, w1) \<Rightarrow>
          (case jsonMarshal en meta of
             Inl err \<Rightarrow> (Inl (Wrapped ''failed to marshal metadata'' (LibError err)), w1)
           | Inr data \<Rightarrow>
               (case WriteFile en w1 path data of
                  (Inl err, w2) \<Rightarrow> (Inl (Wrapped ''failed to write metadata file'' err), w2)
                | (Inr u', w2) \<Rightarrow> (Inr (), w2))))"

section \<open>Downloader (downloader.go)\<close>

record DownloaderConfig =
  CacheDir :: string
  Timeout :: int64
  MaxSize :: int64
  ForceRefresh :: bool

record DocumentDownloader =
  config :: DownloaderConfig
  cacheDir :: string

definition GetCachedPath ::
  "env \<Rightarrow> DocumentDownloader \<Rightarrow> world \<Rightarrow> string \<Rightarrow> string \<times> bool \<times> error option" where
  "GetCachedPath en d w urlStr =
     (let docPath = GetCachedDocumentPath (cacheDir d) urlStr
      in case osStat en w docPath of
           StatNotExist \<Rightarrow> ([], False, None)
         | StatErr e \<Rightarrow> ([], False, Some (Wrapped ''failed to stat cached file'' (LibError e)))
         | StatOk \<Rightarrow> (docPath, True, None))"

definition validateURL :: "env \<Rightarrow> string \<Rightarrow> error + unit" where
  "validateURL en urlStr =
     (case urlParse en urlStr of
        Inl err \<Rightarrow> Inl (ErrInvalidURL (''failed to parse: '' @ err))
      | Inr (scheme, host) \<Rightarrow>
          if scheme \<noteq> ''http'' \<and> scheme \<noteq> ''https'' then
            Inl (ErrInvalidURL (''unsupported scheme: '' @ scheme))
          else if host = [] then Inl (ErrInvalidURL ''missing host'')
          else Inr ())"

definition NewRequest :: "env \<Rightarrow> string \<Rightarrow> string \<Rightarrow> string + request" where
  \<comment> \<open>\<open>http.NewRequest\<close> with a valid method: it fails when the URL does not parse\<close>
  "NewRequest en method urlStr =
     (case urlParse en urlStr of
        Inl err \<Rightarrow> Inl err
      | Inr u \<Rightarrow> Inr \<lparr>reqMethod = method, reqURL = urlStr, reqHeader = []\<rparr>)"

definition HeaderSet :: "request \<Rightarrow> string \<Rightarrow> string \<Rightarrow> request" where
  "HeaderSet req key v = req\<lparr>reqHeader := filter (\<lambda>kv. fst kv \<noteq> key) (reqHeader req) @ [(key, v)]\<rparr>"

definition Do :: "env \<Rightarrow> world \<Rightarrow> request \<Rightarrow> ((string \<times> string) + response) \<times> world" where
  "Do en w req = (httpDo en req, w\<lparr>events := events w @ [EvRequest req]\<rparr>)"

definition urlErrorText :: "string \<Rightarrow> string \<times> string \<Rightarrow> string" where
  \<comment> \<open>\<open>(*url.Error).Error\<close>: \<open>fmt.Sprintf("%s %q: %s", e.Op, e.URL, e.Err)\<close>\<close>
  "urlErrorText op e = op @ '' '' @ fst e @ '': '' @ snd e"

definition readAllLimited :: "world \<Rightarrow> response \<Rightarrow> int64 \<Rightarrow> (string + string) \<times> world" where
  \<comment> \<open>\<open>io.ReadAll(io.LimitReader(resp.Body, n))\<close>: a limit that is not positive reads nothing\<close>
  "readAllLimited w resp n =
     (if sint n \<le> 0 then (Inr [], w\<lparr>events := events w @ [EvReadBody 0]\<rparr>)
      else
        (let content = take (nat (sint n)) (Body resp);
             w1 = w\<lparr>events := events w @ [EvReadBody (length content)]\<rparr>
         in if length (Body resp) < nat (sint n) then
              (case BodyErr resp of Some e \<Rightarrow> (Inl e, w1) | None \<Rightarrow> (Inr content, w1))
            else (Inr content, w1)))"

definition downloadWithValidation ::
  "env \<Rightarrow> DocumentDownloader \<Rightarrow> world \<Rightarrow> string \<Rightarrow> (error + string \<times> CacheMetadata) \<times> world" where
  "downloadWithValidation en d w urlStr =
     (case NewRequest en ''GET'' urlStr of
        Inl err \<Rightarrow> (Inl (Wrapped ''failed to create request'' (LibError err)), w)
      | Inr req \<Rightarrow>
          (case Do en w req of
             (Inl err, w1) \<Rightarrow> (Inl (ErrDownloadFailed urlStr (urlErrorText ''Get'' err)), w1)
           | (Inr resp, w1) \<Rightarrow>
               if StatusCode resp \<noteq> 200 then
                 (Inl (ErrDownloadFailed urlStr (''HTTP '' @ Itoa (StatusCode resp))), w1)
               else
                 (let contentType = Header resp ''Content-Type''
                  in if \<not> isTextContentType (unicodeTables en) contentType then
                       (Inl (ErrNotTextFile (''content type: '' @ contentType)), w1)
                     else if MaxSize (config d) <s ContentLength resp then
                       (Inl (ErrFileTooLarge (ContentLength resp) (MaxSize (config d))), w1)
                     else
                       (case readAllLimited w1 resp (MaxSize (config d) + 1) of
                          (Inl err, w2) \<Rightarrow>
                            (Inl (Wrapped ''failed to read response body'' (LibError err)), w2)
                        | (Inr content, w2) \<Rightarrow>
                            if MaxSize (config d) <s of_nat (length content) then
                              (Inl (ErrFileTooLarge (of_nat (length content)) (MaxSize (config d))), w2)
                            else
                              (Inr (content,
                                    \<lparr>URL = urlStr,
                                     DownloadedAt = now en,
                                     ContentHash = ComputeContentHash content,
                                     ETag = Header resp ''ETag'',
                                     LastModified = Header resp ''Last-Modified'',
                                     ContentType = contentType,
                                     Size = of_nat (length content)\<rparr>),
                               w2)))))"

definition checkCacheFreshness ::
  "env \<Rightarrow> DocumentDownloader \<Rightarrow> world \<Rightarrow> string \<Rightarrow> CacheMetadata \<Rightarrow> (error + bool) \<times> world" where
  "checkCacheFreshness en d w urlStr meta =
     (case NewRequest en ''HEAD'' urlStr of
        Inl err \<Rightarrow> (Inl (Wrapped ''failed to create HEAD request'' (LibError err)), w)
      | Inr req \<Rightarrow>
          (let req1 = (if ETag meta \<noteq> [] then HeaderSet req ''If-None-Match'' (ETag meta) else req);
               req2 = (if LastModified meta \<noteq> [] then
                         HeaderSet req1 ''If-Modified-Since'' (LastModified meta)
                       else req1)
           in case Do en w req2 of
                (Inl err, w1) \<Rightarrow>
                  (Inr True,
                   logf w1 Debug ''HEAD request failed for %s, assuming cache is valid: %v''
                     [S urlStr, S (urlErrorText ''Head'' err)])
              | (Inr resp, w1) \<Rightarrow>
                  if StatusCode resp = 304 then (Inr True, w1) else (Inr False, w1)))"

definition ValidateCache ::
  "env \<Rightarrow> DocumentDownloader \<Rightarrow> world \<Rightarrow> string \<Rightarrow> (error + bool) \<times> world" where
  "ValidateCache en d w urlStr =
     (let metaPath = GetCachedMetadataPath (cacheDir d) urlStr
      in case LoadMetadata en w metaPath of
           Inl err \<Rightarrow> (Inl (Wrapped ''failed to load metadata'' err), w)
         | Inr meta \<Rightarrow>
             if ETag meta = [] \<and> LastModified meta = [] then (Inr True, w)
             else checkCacheFreshness en d w urlStr meta)"

definition useCache ::
  "env \<Rightarrow> DocumentDownloader \<Rightarrow> world \<Rightarrow> string \<Rightarrow> bool \<Rightarrow> bool \<times> world" where
  \<comment> \<open>lines 81 to 90 of \<open>Download\<close>: whether the cached version is returned\<close>
  "useCache en d w urlStr exists =
     (if exists \<and> \<not> ForceRefresh (config d) then
        (case ValidateCache en d w urlStr of
           (Inl err, w1) \<Rightarrow>
             (False, logf w1 Warn ''Failed to validate cache for %s: %v'' [S urlStr, E err])
         | (Inr valid, w1) \<Rightarrow>
             if valid then (True, logf w1 Debug ''Using cached document for %s'' [S urlStr])
             else (False, w1))
      else (False, w))"

definition persist ::
  "env \<Rightarrow> DocumentDownloader \<Rightarrow> world \<Rightarrow> string \<Rightarrow> string \<Rightarrow> CacheMetadata \<Rightarrow> (error + string) \<times> world" where
  \<comment> \<open>lines 99 to 119 of \<open>Download\<close>: save to cache\<close>
  "persist en d w urlStr content meta =
     (let docPath = GetCachedDocumentPath (cacheDir d) urlStr;
          metaPath = GetCachedMetadataPath (cacheDir d) urlStr
      in case MkdirAll en w (Dir docPath) of
           (Inl err, w1) \<Rightarrow> (Inl (Wrapped ''failed to create cache directory'' err), w1)
         | (Inr u, w1) \<Rightarrow>
             (case WriteFile en w1 docPath content of
                (Inl err, w2) \<Rightarrow> (Inl (Wrapped ''failed to write document to cache'' err), w2)
              | (Inr u', w2) \<Rightarrow>
                  (let w4 = (case SaveMetadata en w2 metaPath meta of
                               (Inl err, w3) \<Rightarrow>
                                 logf w3 Warn ''Failed to save metadata for %s: %v'' [S urlStr, E err]
                             | (Inr u'', w3) \<Rightarrow> w3)
                   in (Inr docPath,
                       logf w4 Info ''Downloaded and cached document from %s (%d bytes)''
                         [S urlStr, N (int (length content))]))))"

definition Download ::
  "env \<Rightarrow> DocumentDownloader \<Rightarrow> world \<Rightarrow> string \<Rightarrow> (error + string) \<times> world" where
  "Download en d w urlStr =
     (case validateURL en urlStr of
        Inl err \<Rightarrow> (Inl (Wrapped ''invalid URL'' err), w)
      | Inr u \<Rightarrow>
          (case GetCachedPath en d w urlStr of
             (cachedPath, exists, cerr) \<Rightarrow>
               (let w1 = (case cerr of
                            Some err \<Rightarrow> logf w Warn ''Failed to check cache for %s: %v'' [S urlStr, E err]
                          | None \<Rightarrow> w)
                in case useCache en d w1 urlStr exists of
                     (True, w2) \<Rightarrow> (Inr cachedPath, w2)
                   | (False, w2) \<Rightarrow>
                       (let w3 = logf w2 Info ''Downloading document from %s'' [S urlStr]
                        in case downloadWithValidation en d w3 urlStr of
                             (Inl err, w4) \<Rightarrow> (Inl (Wrapped ''download failed'' err), w4)
                           | (Inr (content, meta), w4) \<Rightarrow> persist en d w4 urlStr content meta))))"

section \<open>Scanner (scanner.go)\<close>




text \<open>
  The part of the file system that a walk sees: what \<open>os.Lstat\<close> and the listing of a
  directory return. The entries of a directory are in the order in which
  \<open>filepath.Walk\<close> visits them (sorted by name).
\<close>

datatype fsnode =
    File string  \<comment> \<open>an entry that is not a directory, with its name\<close>
  | Directory string "fsnode list"
  | DirUnreadable string string  \<comment> \<open>a directory whose listing fails, with the error\<close>
  | LstatErr string string  \<comment> \<open>an entry on which \<open>os.Lstat\<close> fails, with the error\<close>


fun nodeIsDir :: "fsnode \<Rightarrow> bool" where
  "nodeIsDir (Directory name entries) = True"
| "nodeIsDir (DirUnreadable name err) = True"
| "nodeIsDir node = False"








text \<open>
  The conditional request of the freshness check: a \<open>HEAD\<close> request that carries
  \<open>If-None-Match\<close> when an ETag is stored and \<open>If-Modified-Since\<close> when a
  Last-Modified value is stored.
\<close>

definition conditionalRequest :: "string \<Rightarrow> CacheMetadata \<Rightarrow> request" where
  "conditionalRequest urlStr meta =
     \<lparr>reqMethod = ''HEAD'', reqURL = urlStr,
      reqHeader =
        (if ETag meta \<noteq> [] then [(''If-None-Match'', ETag meta)] else [])
        @ (if LastModified meta \<noteq> [] then [(''If-Modified-Since'', LastModified meta)] else [])\<rparr>"

section \<open>Error kinds\<close>

text \<open>
  The kind of an error is the Go type that \<open>errors.As\<close> finds in its chain: the types
  of errors.go, or an error of a library. \<open>fmt.Errorf\<close> with \<open>%w\<close> wraps an error
  and adds no kind of its own.
\<close>

datatype errorKind =
    KInvalidURL | KInvalidPath | KDownloadFailed | KCacheError | KInvalidConfig
  | KFileTooLarge | KNotTextFile | KPathTraversal | KLibrary

fun errKind :: "error \<Rightarrow> errorKind" where
  "errKind (ErrInvalidURL msg) = KInvalidURL"
| "errKind (ErrInvalidPath msg) = KInvalidPath"
| "errKind (ErrDownloadFailed url reason) = KDownloadFailed"
| "errKind (ErrCacheError operation reason) = KCacheError"
| "errKind (ErrInvalidConfig msg) = KInvalidConfig"
| "errKind (ErrFileTooLarge sz mx) = KFileTooLarge"
| "errKind (ErrNotTextFile msg) = KNotTextFile"
| "errKind (ErrPathTraversal path) = KPathTraversal"
| "errKind (Wrapped msg err) = errKind err"
| "errKind (LibError msg) = KLibrary"

section \<open>Example scenarios\<close>

text \<open>Concrete environments, used to run the model on the scenarios of the specification.\<close>

definition epoch :: Time where
  "epoch = \<lparr>instant = 0, monotonic = None, location = ''UTC''\<rparr>"

definition etagOnly :: "string \<Rightarrow> CacheMetadata" where
  "etagOnly tag =
     \<lparr>URL = [], DownloadedAt = epoch, ContentHash = [], ETag = tag, LastModified = [],
      ContentType = [], Size = 0\<rparr>"

definition exampleEnv :: "(request \<Rightarrow> (string \<times> string) + response) \<Rightarrow> env" where
  \<comment> \<open>a server given by its answers, a file system without failures, and a metadata file
     that holds the ETag only\<close>
  "exampleEnv server =
     \<lparr>unicodeTables = asciiOnly,
      urlParse = (\<lambda>s. Inr (''https'', ''example.com'')),
      httpDo = server,
      now = epoch,
      statErr = (\<lambda>p. None), readErr = (\<lambda>p. None), mkdirErr = (\<lambda>p. None),
      writeErr = (\<lambda>p. None), partialWrite = (\<lambda>p data. None),
      jsonMarshal = (\<lambda>meta. Inr (ETag meta)),
      jsonUnmarshal = (\<lambda>data. Inr (etagOnly data))\<rparr>"

definition helloResponse :: response where
  "helloResponse =
     \<lparr>StatusCode = 200,
      Header = (\<lambda>k. if k = ''Content-Type'' then ''text/plain''
                     else if k = ''ETag'' then ''v1'' else []),
      ContentLength = 5, Body = ''hello'', BodyErr = None\<rparr>"

definition exampleDownloader :: "int64 \<Rightarrow> DocumentDownloader" where
  "exampleDownloader limit =
     \<lparr>config = \<lparr>CacheDir = ''/cache'', Timeout = 30, MaxSize = limit, ForceRefresh = False\<rparr>,
      cacheDir = ''/cache''\<rparr>"

definition emptyWorld :: world where
  "emptyWorld = \<lparr>files = Map.empty, events = []\<rparr>"

definition exampleURL :: string where
  "exampleURL = ''https://example.com/a.txt''"




text \<open>A server that answers 304, and a world in which the example URL is cached with ETag \<open>v1\<close>.\<close>

definition notModified :: "request \<Rightarrow> (string \<times> string) + response" where
  "notModified req = Inr (helloResponse\<lparr>StatusCode := 304\<rparr>)"

definition cachedWorld :: world where
  "cachedWorld =
     \<lparr>files = [GetCachedDocumentPath ''/cache'' exampleURL \<mapsto> ''hello'',
               GetCachedMetadataPath ''/cache'' exampleURL \<mapsto> ''v1''],
      events = []\<rparr>"

text \<open>The request of a fetch.\<close>

definition getRequest :: "string \<Rightarrow> request" where
  "getRequest urlStr = \<lparr>reqMethod = ''GET'', reqURL = urlStr, reqHeader = []\<rparr>"

text \<open>
  A server that answers with the five bytes \<open>hello\<close> and declares them, and one that
  declares no length.
\<close>

definition helloServer :: "request \<Rightarrow> (string \<times> string) + response" where
  "helloServer req = Inr helloResponse"


subsection \<open>Decimal formatting is injective\<close>

definition digitVal :: "char \<Rightarrow> nat" where
  "digitVal c = (of_char c :: nat) - 48"

definition decToNat :: "string \<Rightarrow> nat" where
  "decToNat s = foldl (\<lambda>acc c. 10 * acc + digitVal c) 0 s"

subsection \<open>Error kinds of a fetch\<close>

text \<open>A server that cannot be reached, and one that answers 404.\<close>

definition refusingServer :: "request \<Rightarrow> (string \<times> string) + response" where
  "refusingServer req = Inl (''\"https://example.com/a.txt\"'', ''dial tcp: connection refused'')"

definition notFoundServer :: "request \<Rightarrow> (string \<times> string) + response" where
  "notFoundServer req = Inr (helloResponse\<lparr>StatusCode := 404\<rparr>)"

subsection \<open>\<open>filepath.Clean\<close> keeps the last element\<close>





subsection \<open>Directory scans\<close>



section \<open>Properties\<close>

subsection \<open>Strings\<close>

lemma HasPrefix_iff: "HasPrefix s pre \<longleftrightarrow> (\<exists>post. s = pre @ post)"
proof
  assume "HasPrefix s pre"
  then have "take (length pre) s = pre" by (simp add: HasPrefix_def)
  then have "s = pre @ drop (length pre) s" by (metis append_take_drop_id)
  then show "\<exists>post. s = pre @ post" ..
next
  assume "\<exists>post. s = pre @ post"
  then show "HasPrefix s pre" by (auto simp: HasPrefix_def)
qed

lemma Contains_iff: "Contains s sub \<longleftrightarrow> (\<exists>pre post. s = pre @ sub @ post)"
proof (induction s)
  case Nil
  show ?case by auto
next
  case (Cons c cs)
  show ?case
  proof
    assume "Contains (c # cs) sub"
    then consider "HasPrefix (c # cs) sub" | "Contains cs sub" by auto
    then show "\<exists>pre post. c # cs = pre @ sub @ post"
    proof cases
      case 1
      then obtain post where "c # cs = sub @ post" by (auto simp: HasPrefix_iff)
      then have "c # cs = [] @ sub @ post" by simp
      then show ?thesis by blast
    next
      case 2
      with Cons.IH obtain pre post where "cs = pre @ sub @ post" by auto
      then have "c # cs = (c # pre) @ sub @ post" by simp
      then show ?thesis by blast
    qed
  next
    assume "\<exists>pre post. c # cs = pre @ sub @ post"
    then obtain pre post where eq: "c # cs = pre @ sub @ post" by auto
    show "Contains (c # cs) sub"
    proof (cases pre)
      case Nil
      with eq have "HasPrefix (c # cs) sub" by (auto simp: HasPrefix_iff)
      then show ?thesis by simp
    next
      case (Cons p ps)
      with eq have "cs = ps @ sub @ post" by simp
      with Cons.IH have "Contains cs sub" by auto
      then show ?thesis by simp
    qed
  qed
qed

text \<open>
  Claim C5. A path that contains \<open>..\<close>, in the raw input or after \<open>filepath.Clean\<close>, is
  rejected by \<open>ValidatePath\<close> with the path-traversal error for that path. The validator
  is a function of the path alone: it reads and changes nothing else.
\<close>

theorem ValidatePath_rejects_dotdot:
  assumes "(\<exists>pre post. path = pre @ ''..'' @ post) \<or> (\<exists>pre post. Clean path = pre @ ''..'' @ post)"
  shows "ValidatePath path = Inl (ErrPathTraversal path)"
  using assms by (auto simp: ValidatePath_def Contains_iff Let_def)

theorem ValidatePath_rejects_dotdot_witness:
  "(\<exists>pre post. ''docs/../../etc/passwd'' = pre @ ''..'' @ post)
   \<and> ValidatePath ''docs/../../etc/passwd'' = Inl (ErrPathTraversal ''docs/../../etc/passwd'')"
proof -
  have "''docs/../../etc/passwd'' = ''docs/'' @ ''..'' @ ''/../etc/passwd''" by simp
  then have h: "\<exists>pre post. ''docs/../../etc/passwd'' = pre @ ''..'' @ post" by blast
  then show ?thesis using ValidatePath_rejects_dotdot [of "''docs/../../etc/passwd''"] by blast
qed

text \<open>Every other path is accepted: the two checks are the only ones.\<close>

lemma ValidatePath_accepts:
  assumes "\<not> (\<exists>pre post. path = pre @ ''..'' @ post)" and "\<not> (\<exists>pre post. Clean path = pre @ ''..'' @ post)"
  shows "ValidatePath path = Inr ()"
  using assms by (auto simp: ValidatePath_def Contains_iff Let_def)

lemma Split_nonempty: "Split s sep \<noteq> []"
  by (induction s) (auto split: list.splits)

lemma hd_Split: "hd (Split s sep) = takeWhile (\<lambda>c. c \<noteq> sep) s"
  using Split_nonempty by (induction s) (auto split: list.splits)

lemma anyHasPrefix_iff: "anyHasPrefix s ts \<longleftrightarrow> (\<exists>t \<in> set ts. HasPrefix s t)"
  by (induction ts) auto

text \<open>
  Claim C4, as amended. The check cuts the header at the first \<open>;\<close>, lower-cases and trims
  surrounding white space, and accepts exactly when the result begins with one of the
  entries of the allow-list (a prefix match for every entry, not only for \<open>text/\<close>).
  \<open>application/octet-stream\<close> is rejected and \<open>text/html; charset=utf-8\<close> is accepted.
\<close>

theorem isTextContentType_prefix_match:
  "(isTextContentType U header \<longleftrightarrow>
      (let t = TrimSpace U (ToLower U (takeWhile (\<lambda>c. c \<noteq> CHR '';'') header))
       in HasPrefix t ''text/'' \<or> HasPrefix t ''application/json'' \<or> HasPrefix t ''application/xml''
          \<or> HasPrefix t ''application/javascript'' \<or> HasPrefix t ''application/x-yaml''
          \<or> HasPrefix t ''application/yaml''))
   \<and> \<not> isTextContentType U ''application/octet-stream''
   \<and> isTextContentType U ''text/html; charset=utf-8''"
proof (intro conjI)
  show "isTextContentType U header \<longleftrightarrow>
      (let t = TrimSpace U (ToLower U (takeWhile (\<lambda>c. c \<noteq> CHR '';'') header))
       in HasPrefix t ''text/'' \<or> HasPrefix t ''application/json'' \<or> HasPrefix t ''application/xml''
          \<or> HasPrefix t ''application/javascript'' \<or> HasPrefix t ''application/x-yaml''
          \<or> HasPrefix t ''application/yaml'')"
    by (simp add: isTextContentType_def hd_Split anyHasPrefix_iff textTypes_def Let_def)
  show "\<not> isTextContentType U ''application/octet-stream''"
    by (simp add: isTextContentType_def ToLower_def isASCIIbyte_def asciiToLower_def
        upperLetters_def lowerLetters_def asciiSpace_def textTypes_def HasPrefix_def trimStop.simps)
  show "isTextContentType U ''text/html; charset=utf-8''"
    by (simp add: isTextContentType_def ToLower_def isASCIIbyte_def asciiToLower_def
        upperLetters_def lowerLetters_def asciiSpace_def textTypes_def HasPrefix_def trimStop.simps)
qed

text \<open>
  Claim C4, as stated, fails: \<open>application/json-patch+json\<close> is not a member of the
  allow-list, and the check accepts it, because \<open>application/json\<close> is a prefix of it.
\<close>

theorem isTextContentType_not_exact_counterexample:
  "isTextContentType asciiOnly ''application/json-patch+json''
   \<noteq> spec_isTextLike asciiOnly ''application/json-patch+json''"
  by (simp add: isTextContentType_def spec_isTextLike_def ToLower_def isASCIIbyte_def asciiToLower_def
        upperLetters_def lowerLetters_def asciiSpace_def textTypes_def HasPrefix_def trimStop.simps)

subsection \<open>Cache freshness\<close>

lemma checkCacheFreshness_request:
  assumes "urlParse en urlStr = Inr u"
  shows "checkCacheFreshness en d w urlStr meta =
     (case httpDo en (conditionalRequest urlStr meta) of
        Inl err \<Rightarrow>
          (Inr True,
           logf (w\<lparr>events := events w @ [EvRequest (conditionalRequest urlStr meta)]\<rparr>) Debug
             ''HEAD request failed for %s, assuming cache is valid: %v''
             [S urlStr, S (urlErrorText ''Head'' err)])
      | Inr resp \<Rightarrow>
          (Inr (StatusCode resp = 304),
           w\<lparr>events := events w @ [EvRequest (conditionalRequest urlStr meta)]\<rparr>))"
  using assms
  by (auto simp: checkCacheFreshness_def NewRequest_def HeaderSet_def Do_def conditionalRequest_def
      Let_def split: sum.splits)

text \<open>
  Claim C2. For a cached entry whose metadata loads, of a URL that parses (as every URL
  that \<open>Download\<close> has validated does): without a stored ETag and Last-Modified value
  the cache is valid and the world is unchanged, so no request is sent; with a validator
  the conditional request is sent, and a transport failure gives valid, a response with
  status 304 gives valid, and every other response gives stale. With force-refresh off,
  \<open>Download\<close> returns the cached path exactly when the validation gives valid, and
  fetches again otherwise.
\<close>

theorem ValidateCache_freshness:
  assumes "LoadMetadata en w (GetCachedMetadataPath (cacheDir d) urlStr) = Inr meta"
      and "urlParse en urlStr = Inr u"
  shows "(ETag meta = [] \<and> LastModified meta = [] \<longrightarrow> ValidateCache en d w urlStr = (Inr True, w))
    \<and> (\<not> (ETag meta = [] \<and> LastModified meta = []) \<longrightarrow>
         (\<forall>err. httpDo en (conditionalRequest urlStr meta) = Inl err \<longrightarrow>
            ValidateCache en d w urlStr =
              (Inr True,
               logf (w\<lparr>events := events w @ [EvRequest (conditionalRequest urlStr meta)]\<rparr>) Debug
                 ''HEAD request failed for %s, assuming cache is valid: %v''
                 [S urlStr, S (urlErrorText ''Head'' err)]))
       \<and> (\<forall>resp. httpDo en (conditionalRequest urlStr meta) = Inr resp \<longrightarrow>
            ValidateCache en d w urlStr =
              (Inr (StatusCode resp = 304),
               w\<lparr>events := events w @ [EvRequest (conditionalRequest urlStr meta)]\<rparr>)))
    \<and> (\<not> ForceRefresh (config d) \<longrightarrow>
         fst (useCache en d w urlStr True) = (fst (ValidateCache en d w urlStr) = Inr True))"
proof (intro conjI impI)
  assume "ETag meta = [] \<and> LastModified meta = []"
  with assms(1) show "ValidateCache en d w urlStr = (Inr True, w)"
    by (simp add: ValidateCache_def)
next
  assume v: "\<not> (ETag meta = [] \<and> LastModified meta = [])"
  with assms(1) have eq: "ValidateCache en d w urlStr = checkCacheFreshness en d w urlStr meta"
    by (auto simp: ValidateCache_def)
  show "\<forall>err. httpDo en (conditionalRequest urlStr meta) = Inl err \<longrightarrow>
            ValidateCache en d w urlStr =
              (Inr True,
               logf (w\<lparr>events := events w @ [EvRequest (conditionalRequest urlStr meta)]\<rparr>) Debug
                 ''HEAD request failed for %s, assuming cache is valid: %v''
                 [S urlStr, S (urlErrorText ''Head'' err)])"
    by (simp add: eq checkCacheFreshness_request [OF assms(2)])
  show "\<forall>resp. httpDo en (conditionalRequest urlStr meta) = Inr resp \<longrightarrow>
            ValidateCache en d w urlStr =
              (Inr (StatusCode resp = 304),
               w\<lparr>events := events w @ [EvRequest (conditionalRequest urlStr meta)]\<rparr>)"
    by (simp add: eq checkCacheFreshness_request [OF assms(2)])
next
  assume "\<not> ForceRefresh (config d)"
  then show "fst (useCache en d w urlStr True) = (fst (ValidateCache en d w urlStr) = Inr True)"
    by (auto simp: useCache_def split: prod.splits sum.splits)
qed

theorem ValidateCache_freshness_witness:
  "LoadMetadata (exampleEnv notModified) cachedWorld
       (GetCachedMetadataPath (cacheDir (exampleDownloader 10)) exampleURL) = Inr (etagOnly ''v1'')
   \<and> urlParse (exampleEnv notModified) exampleURL = Inr (''https'', ''example.com'')
   \<and> ValidateCache (exampleEnv notModified) (exampleDownloader 10) cachedWorld exampleURL =
        (Inr True,
         cachedWorld\<lparr>events :=
           [EvRequest \<lparr>reqMethod = ''HEAD'', reqURL = exampleURL,
                       reqHeader = [(''If-None-Match'', ''v1'')]\<rparr>]\<rparr>)"
proof -
  have h1: "LoadMetadata (exampleEnv notModified) cachedWorld
       (GetCachedMetadataPath (cacheDir (exampleDownloader 10)) exampleURL) = Inr (etagOnly ''v1'')"
    by (simp add: LoadMetadata_def ReadFile_def exampleEnv_def cachedWorld_def exampleDownloader_def)
  have h2: "urlParse (exampleEnv notModified) exampleURL = Inr (''https'', ''example.com'')"
    by (simp add: exampleEnv_def)
  have h3: "httpDo (exampleEnv notModified) (conditionalRequest exampleURL (etagOnly ''v1''))
              = Inr (helloResponse\<lparr>StatusCode := 304\<rparr>)"
    by (simp add: exampleEnv_def notModified_def)
  from ValidateCache_freshness [OF h1 h2] h3 h1 h2 show ?thesis
    by (simp add: etagOnly_def conditionalRequest_def cachedWorld_def helloResponse_def)
qed

subsection \<open>Size limit\<close>










lemma textPlain_isText: "isTextContentType asciiOnly ''text/plain''"
  by (simp add: isTextContentType_def ToLower_def isASCIIbyte_def asciiToLower_def
      upperLetters_def lowerLetters_def asciiSpace_def textTypes_def HasPrefix_def trimStop.simps)


lemma digit_cases: "d < 10 \<Longrightarrow> d = 0 \<or> d = 1 \<or> d = 2 \<or> d = 3 \<or> d = 4 \<or> d = 5 \<or> d = 6 \<or> d = 7 \<or> d = 8 \<or> d = (9::nat)"
  by arith

lemma digitVal_digit: "d < 10 \<Longrightarrow> digitVal (''0123456789'' ! d) = d"
  using digit_cases [of d] by (auto simp: digitVal_def)

lemma digit_not_minus: "d < 10 \<Longrightarrow> ''0123456789'' ! d \<noteq> CHR ''-''"
  using digit_cases [of d] by auto

lemma decToNat_natToDec: "decToNat (natToDec n) = n"
proof (induction n rule: natToDec.induct)
  case (1 n)
  show ?case
  proof (cases "n < 10")
    case True
    then show ?thesis
      by (subst natToDec.simps) (simp add: decToNat_def digitVal_digit)
  next
    case False
    with 1 have ih: "decToNat (natToDec (n div 10)) = n div 10" by simp
    have "decToNat (natToDec n) = 10 * decToNat (natToDec (n div 10)) + digitVal (''0123456789'' ! (n mod 10))"
      using False by (subst natToDec.simps) (simp add: decToNat_def)
    also have "\<dots> = 10 * (n div 10) + n mod 10"
      by (simp add: ih digitVal_digit)
    finally show ?thesis by simp
  qed
qed

lemma natToDec_inj: "natToDec m = natToDec n \<Longrightarrow> m = n"
  by (metis decToNat_natToDec)

lemma natToDec_hd: "\<exists>d rest. d < 10 \<and> natToDec n = (''0123456789'' ! d) # rest"
proof (induction n rule: natToDec.induct)
  case (1 n)
  show ?case
  proof (cases "n < 10")
    case True
    then have "natToDec n = [''0123456789'' ! n]" by (subst natToDec.simps) simp
    with True show ?thesis by blast
  next
    case False
    with 1 obtain d rest where d: "d < 10" "natToDec (n div 10) = (''0123456789'' ! d) # rest" by blast
    have "natToDec n = natToDec (n div 10) @ [''0123456789'' ! (n mod 10)]"
      using False by (subst natToDec.simps) simp
    with d have "natToDec n = (''0123456789'' ! d) # (rest @ [''0123456789'' ! (n mod 10)])" by simp
    with d(1) show ?thesis by blast
  qed
qed

lemma natToDec_no_minus: "natToDec n \<noteq> CHR ''-'' # s"
proof
  assume a: "natToDec n = CHR ''-'' # s"
  obtain d rest where "d < 10" "natToDec n = (''0123456789'' ! d) # rest"
    using natToDec_hd by blast
  with a digit_not_minus show False by auto
qed

lemma Itoa_inj: "Itoa i = Itoa j \<Longrightarrow> i = j"
proof -
  assume a: "Itoa i = Itoa j"
  consider "i < 0" "j < 0" | "i < 0" "\<not> j < 0" | "\<not> i < 0" "j < 0" | "\<not> i < 0" "\<not> j < 0" by blast
  then show ?thesis
  proof cases
    case 1
    with a have "natToDec (nat (- i)) = natToDec (nat (- j))" by (simp add: Itoa_def)
    then have "nat (- i) = nat (- j)" by (rule natToDec_inj)
    with 1 show ?thesis by simp
  next
    case 2
    with a have "natToDec (nat j) = CHR ''-'' # natToDec (nat (- i))" by (simp add: Itoa_def)
    with natToDec_no_minus show ?thesis by blast
  next
    case 3
    with a have "natToDec (nat i) = CHR ''-'' # natToDec (nat (- j))" by (simp add: Itoa_def)
    with natToDec_no_minus show ?thesis by blast
  next
    case 4
    with a have "natToDec (nat i) = natToDec (nat j)" by (simp add: Itoa_def)
    then have "nat i = nat j" by (rule natToDec_inj)
    with 4 show ?thesis by simp
  qed
qed

subsection \<open>The outcomes of \<open>Download\<close>\<close>

lemma validateURL_parses: "validateURL en urlStr = Inr x \<Longrightarrow> \<exists>u. urlParse en urlStr = Inr u"
  by (auto simp: validateURL_def split: sum.splits)

lemma validateURL_errors: "validateURL en urlStr = Inl err \<Longrightarrow> \<exists>msg. err = ErrInvalidURL msg"
  by (auto simp: validateURL_def split: sum.splits if_splits)

lemma GetCachedPath_exists:
  "GetCachedPath en d w urlStr = (p, True, cerr) \<Longrightarrow> p = GetCachedDocumentPath (cacheDir d) urlStr"
  by (auto simp: GetCachedPath_def Let_def split: statres.splits)

lemma useCache_exists: "useCache en d w urlStr ex = (True, w') \<Longrightarrow> ex"
  by (auto simp: useCache_def split: if_splits prod.splits sum.splits)

lemma persist_path:
  "persist en d w urlStr content meta = (Inr p, w') \<Longrightarrow> p = GetCachedDocumentPath (cacheDir d) urlStr"
  by (auto simp: persist_def Let_def split: prod.splits sum.splits)

lemma persist_errors:
  "persist en d w urlStr content meta = (Inl err, w') \<Longrightarrow>
     (\<exists>msg. err = Wrapped ''failed to create cache directory'' (LibError msg))
     \<or> (\<exists>msg. err = Wrapped ''failed to write document to cache'' (LibError msg))"
  by (auto simp: persist_def Let_def MkdirAll_def WriteFile_def split: prod.splits sum.splits option.splits)

lemma downloadWithValidation_errors:
  assumes "urlParse en urlStr = Inr u"
      and "downloadWithValidation en d w urlStr = (Inl err, w')"
  shows "(\<exists>e. httpDo en (getRequest urlStr) = Inl e
              \<and> err = ErrDownloadFailed urlStr (urlErrorText ''Get'' e))
       \<or> (\<exists>resp. httpDo en (getRequest urlStr) = Inr resp \<and> StatusCode resp \<noteq> 200
              \<and> err = ErrDownloadFailed urlStr (''HTTP '' @ Itoa (StatusCode resp)))
       \<or> (\<exists>ct. err = ErrNotTextFile (''content type: '' @ ct))
       \<or> (\<exists>sz. err = ErrFileTooLarge sz (MaxSize (config d)))
       \<or> (\<exists>msg. err = Wrapped ''failed to read response body'' (LibError msg))"
  using assms
  by (auto simp: downloadWithValidation_def NewRequest_def Do_def getRequest_def Let_def
      split: sum.splits prod.splits if_splits)

lemma Download_cases:
  assumes "Download en d w urlStr = (r, w')"
  shows "(\<exists>err. validateURL en urlStr = Inl err \<and> r = Inl (Wrapped ''invalid URL'' err))
       \<or> (validateURL en urlStr = Inr () \<and> r = Inr (GetCachedDocumentPath (cacheDir d) urlStr))
       \<or> (validateURL en urlStr = Inr ()
            \<and> (\<exists>w3 w4 err. downloadWithValidation en d w3 urlStr = (Inl err, w4)
                  \<and> r = Inl (Wrapped ''download failed'' err)))
       \<or> (validateURL en urlStr = Inr ()
            \<and> (\<exists>w3 w4 content meta. downloadWithValidation en d w3 urlStr = (Inr (content, meta), w4)
                  \<and> persist en d w4 urlStr content meta = (r, w')))"
proof (cases "validateURL en urlStr")
  case (Inl err)
  with assms show ?thesis by (simp add: Download_def)
next
  case (Inr x)
  obtain cachedPath ex cerr where g: "GetCachedPath en d w urlStr = (cachedPath, ex, cerr)"
    by (cases "GetCachedPath en d w urlStr") auto
  define w1 where "w1 = (case cerr of
       Some err \<Rightarrow> logf w Warn ''Failed to check cache for %s: %v'' [S urlStr, E err] | None \<Rightarrow> w)"
  obtain use w2 where u: "useCache en d w1 urlStr ex = (use, w2)"
    by (cases "useCache en d w1 urlStr ex") auto
  show ?thesis
  proof (cases use)
    case True
    with u have ex by (auto dest: useCache_exists)
    with g have "cachedPath = GetCachedDocumentPath (cacheDir d) urlStr"
      by (auto dest: GetCachedPath_exists)
    with assms Inr g u True show ?thesis
      by (simp add: Download_def w1_def)
  next
    case False
    define w3 where "w3 = logf w2 Info ''Downloading document from %s'' [S urlStr]"
    obtain dr w4 where dl: "downloadWithValidation en d w3 urlStr = (dr, w4)"
      by (cases "downloadWithValidation en d w3 urlStr") auto
    show ?thesis
    proof (cases dr)
      case (Inl err)
      with assms Inr g u False dl have "r = Inl (Wrapped ''download failed'' err)"
        by (simp add: Download_def w1_def w3_def)
      with Inr dl Inl show ?thesis by auto
    next
      case (Inr cm)
      obtain content meta where cm: "cm = (content, meta)" by (cases cm) auto
      with assms \<open>validateURL en urlStr = Inr x\<close> g u False dl Inr
      have "persist en d w4 urlStr content meta = (r, w')"
        by (simp add: Download_def w1_def w3_def)
      with \<open>validateURL en urlStr = Inr x\<close> dl Inr cm show ?thesis by auto
    qed
  qed
qed

text \<open>
  Claim C10. A successful \<open>Download\<close> returns the cached-document path of the cache
  directory and the URL: \<open>cacheDir/documents/\<close>, the hexadecimal SHA-256 digest of the
  URL string, \<open>.txt\<close>. The path depends on nothing else, so every successful download of
  the same URL into the same cache directory, whatever the server answers and whatever
  the cache holds, returns the same path.
\<close>

theorem Download_returns_cached_document_path:
  assumes "Download en d w urlStr = (Inr p, w')"
  shows "p = GetCachedDocumentPath (cacheDir d) urlStr
       \<and> p = Join [cacheDir d, ''documents'', EncodeToString (Sum256 urlStr) @ ''.txt'']
       \<and> (\<forall>en2 d2 w2 p2 w2'. cacheDir d2 = cacheDir d \<longrightarrow>
             Download en2 d2 w2 urlStr = (Inr p2, w2') \<longrightarrow> p2 = p)"
proof -
  have path: "q = GetCachedDocumentPath (cacheDir dd) urlStr"
    if "Download ee dd ww urlStr = (Inr q, ww')" for ee dd ww q ww'
    using Download_cases [OF that] by (auto dest: persist_path)
  from path [OF assms] have 1: "p = GetCachedDocumentPath (cacheDir d) urlStr" .
  then have 2: "p = Join [cacheDir d, ''documents'', EncodeToString (Sum256 urlStr) @ ''.txt'']"
    by (simp add: GetCachedDocumentPath_def hashURL_def documentExt_def)
  from 1 path have 3: "\<forall>en2 d2 w2 p2 w2'. cacheDir d2 = cacheDir d \<longrightarrow>
             Download en2 d2 w2 urlStr = (Inr p2, w2') \<longrightarrow> p2 = p"
    by metis
  from 1 2 3 show ?thesis by blast
qed

lemma hello_fetch:
  "downloadWithValidation (exampleEnv helloServer) (exampleDownloader 10) w exampleURL =
     (Inr (''hello'',
           \<lparr>URL = exampleURL, DownloadedAt = epoch, ContentHash = ComputeContentHash ''hello'',
            ETag = ''v1'', LastModified = [], ContentType = ''text/plain'', Size = 5\<rparr>),
      w\<lparr>events := events w @ [EvRequest (getRequest exampleURL), EvReadBody 5]\<rparr>)"
  by (simp add: downloadWithValidation_def NewRequest_def Do_def getRequest_def exampleEnv_def
      helloServer_def helloResponse_def exampleDownloader_def textPlain_isText readAllLimited_def
      word_sless_alt Let_def)

lemma hello_download:
  "fst (Download (exampleEnv helloServer) (exampleDownloader 10) emptyWorld exampleURL)
     = Inr (GetCachedDocumentPath ''/cache'' exampleURL)"
proof -
  have v: "validateURL (exampleEnv helloServer) exampleURL = Inr ()"
    by (simp add: validateURL_def exampleEnv_def)
  have g: "GetCachedPath (exampleEnv helloServer) (exampleDownloader 10) emptyWorld exampleURL
             = ([], False, None)"
    by (simp add: GetCachedPath_def osStat_def exampleEnv_def emptyWorld_def Let_def)
  have u: "useCache (exampleEnv helloServer) (exampleDownloader 10) emptyWorld exampleURL False
             = (False, emptyWorld)"
    by (simp add: useCache_def)
  have p: "fst (persist (exampleEnv helloServer) (exampleDownloader 10) w exampleURL content meta)
             = Inr (GetCachedDocumentPath ''/cache'' exampleURL)" for w content meta
    by (simp add: persist_def MkdirAll_def WriteFile_def exampleEnv_def exampleDownloader_def
        Let_def split: prod.splits sum.splits)
  show ?thesis
    by (simp add: Download_def v g u hello_fetch p Let_def)
qed

theorem Download_returns_cached_document_path_witness:
  "(\<exists>w'. Download (exampleEnv helloServer) (exampleDownloader 10) emptyWorld exampleURL
           = (Inr (GetCachedDocumentPath ''/cache'' exampleURL), w'))
   \<and> GetCachedDocumentPath ''/cache'' exampleURL
       = Join [''/cache'', ''documents'', EncodeToString (Sum256 exampleURL) @ ''.txt'']"
proof -
  have run: "Download (exampleEnv helloServer) (exampleDownloader 10) emptyWorld exampleURL
           = (Inr (GetCachedDocumentPath ''/cache'' exampleURL),
              snd (Download (exampleEnv helloServer) (exampleDownloader 10) emptyWorld exampleURL))"
    using hello_download by (metis prod.collapse)
  from Download_returns_cached_document_path [OF run]
  have "GetCachedDocumentPath ''/cache'' exampleURL
       = Join [cacheDir (exampleDownloader 10), ''documents'', EncodeToString (Sum256 exampleURL) @ ''.txt'']"
    by blast
  then have "GetCachedDocumentPath ''/cache'' exampleURL
       = Join [''/cache'', ''documents'', EncodeToString (Sum256 exampleURL) @ ''.txt'']"
    by (simp add: exampleDownloader_def)
  with run show ?thesis by blast
qed

lemma transport_reason_not_status: "urlErrorText ''Get'' e \<noteq> ''HTTP '' @ Itoa status"
  by (simp add: urlErrorText_def)

text \<open>
  Claim C8, as amended. Every error that \<open>Download\<close> returns has one of the forms below,
  with the kinds \<open>ErrInvalidURL\<close> (invalid locator), \<open>ErrDownloadFailed\<close> (transport
  failure and status other than 200 alike), \<open>ErrNotTextFile\<close> and \<open>ErrFileTooLarge\<close>
  (content policy), and library errors (a failed read of the body, a file system
  failure). A transport failure and a bad status are of the same kind and differ in the
  reason text: that of a bad status is \<open>HTTP\<close> and the status in decimal, from which the
  status is determined; that of a transport failure begins with \<open>Get\<close>.
\<close>

theorem Download_error_kinds:
  assumes "Download en d w urlStr = (Inl err, w')"
  shows "((\<exists>msg. err = Wrapped ''invalid URL'' (ErrInvalidURL msg)) \<and> errKind err = KInvalidURL
        \<or> (\<exists>e. httpDo en (getRequest urlStr) = Inl e
              \<and> err = Wrapped ''download failed'' (ErrDownloadFailed urlStr (urlErrorText ''Get'' e)))
            \<and> errKind err = KDownloadFailed
        \<or> (\<exists>resp. httpDo en (getRequest urlStr) = Inr resp \<and> StatusCode resp \<noteq> 200
              \<and> err = Wrapped ''download failed''
                        (ErrDownloadFailed urlStr (''HTTP '' @ Itoa (StatusCode resp))))
            \<and> errKind err = KDownloadFailed
        \<or> (\<exists>ct. err = Wrapped ''download failed'' (ErrNotTextFile (''content type: '' @ ct)))
            \<and> errKind err = KNotTextFile
        \<or> (\<exists>sz. err = Wrapped ''download failed'' (ErrFileTooLarge sz (MaxSize (config d))))
            \<and> errKind err = KFileTooLarge
        \<or> (\<exists>msg. err = Wrapped ''download failed''
                        (Wrapped ''failed to read response body'' (LibError msg)))
            \<and> errKind err = KLibrary
        \<or> (\<exists>msg. err = Wrapped ''failed to create cache directory'' (LibError msg))
            \<and> errKind err = KLibrary
        \<or> (\<exists>msg. err = Wrapped ''failed to write document to cache'' (LibError msg))
            \<and> errKind err = KLibrary)
     \<and> (\<forall>e status. ErrDownloadFailed urlStr (urlErrorText ''Get'' e)
                      \<noteq> ErrDownloadFailed urlStr (''HTTP '' @ Itoa status))
     \<and> (\<forall>s s'. ''HTTP '' @ Itoa s = ''HTTP '' @ Itoa s' \<longrightarrow> s = s')"
proof (intro conjI)
  from Download_cases [OF assms]
  consider (invalid) e where "validateURL en urlStr = Inl e" "err = Wrapped ''invalid URL'' e"
    | (fetch) w3 w4 e where "validateURL en urlStr = Inr ()"
        "downloadWithValidation en d w3 urlStr = (Inl e, w4)" "err = Wrapped ''download failed'' e"
    | (store) w4 content meta where "persist en d w4 urlStr content meta = (Inl err, w')"
    by auto
  then show "(\<exists>msg. err = Wrapped ''invalid URL'' (ErrInvalidURL msg)) \<and> errKind err = KInvalidURL
        \<or> (\<exists>e. httpDo en (getRequest urlStr) = Inl e
              \<and> err = Wrapped ''download failed'' (ErrDownloadFailed urlStr (urlErrorText ''Get'' e)))
            \<and> errKind err = KDownloadFailed
        \<or> (\<exists>resp. httpDo en (getRequest urlStr) = Inr resp \<and> StatusCode resp \<noteq> 200
              \<and> err = Wrapped ''download failed''
                        (ErrDownloadFailed urlStr (''HTTP '' @ Itoa (StatusCode resp))))
            \<and> errKind err = KDownloadFailed
        \<or> (\<exists>ct. err = Wrapped ''download failed'' (ErrNotTextFile (''content type: '' @ ct)))
            \<and> errKind err = KNotTextFile
        \<or> (\<exists>sz. err = Wrapped ''download failed'' (ErrFileTooLarge sz (MaxSize (config d))))
            \<and> errKind err = KFileTooLarge
        \<or> (\<exists>msg. err = Wrapped ''download failed''
                        (Wrapped ''failed to read response body'' (LibError msg)))
            \<and> errKind err = KLibrary
        \<or> (\<exists>msg. err = Wrapped ''failed to create cache directory'' (LibError msg))
            \<and> errKind err = KLibrary
        \<or> (\<exists>msg. err = Wrapped ''failed to write document to cache'' (LibError msg))
            \<and> errKind err = KLibrary"
  proof cases
    case invalid
    from validateURL_errors [OF invalid(1)] obtain msg where "e = ErrInvalidURL msg" by blast
    with invalid(2) have "\<exists>msg. err = Wrapped ''invalid URL'' (ErrInvalidURL msg)"
      and "errKind err = KInvalidURL" by simp_all
    then show ?thesis by blast
  next
    case fetch
    from validateURL_parses [OF fetch(1)] obtain u where "urlParse en urlStr = Inr u" by blast
    from downloadWithValidation_errors [OF this fetch(2)]
    consider (transport) te where "httpDo en (getRequest urlStr) = Inl te"
          "e = ErrDownloadFailed urlStr (urlErrorText ''Get'' te)"
      | (status) resp where "httpDo en (getRequest urlStr) = Inr resp" "StatusCode resp \<noteq> 200"
          "e = ErrDownloadFailed urlStr (''HTTP '' @ Itoa (StatusCode resp))"
      | (ctype) ct where "e = ErrNotTextFile (''content type: '' @ ct)"
      | (size) sz where "e = ErrFileTooLarge sz (MaxSize (config d))"
      | (rbody) msg where "e = Wrapped ''failed to read response body'' (LibError msg)"
      by blast
    then show ?thesis
    proof cases
      case transport
      with fetch(3) have "\<exists>e. httpDo en (getRequest urlStr) = Inl e
              \<and> err = Wrapped ''download failed'' (ErrDownloadFailed urlStr (urlErrorText ''Get'' e))"
        and "errKind err = KDownloadFailed" by simp_all
      then show ?thesis by blast
    next
      case status
      with fetch(3) have "\<exists>resp. httpDo en (getRequest urlStr) = Inr resp \<and> StatusCode resp \<noteq> 200
              \<and> err = Wrapped ''download failed''
                        (ErrDownloadFailed urlStr (''HTTP '' @ Itoa (StatusCode resp)))"
        and "errKind err = KDownloadFailed" by simp_all
      then show ?thesis by blast
    next
      case ctype
      with fetch(3) have "\<exists>ct. err = Wrapped ''download failed'' (ErrNotTextFile (''content type: '' @ ct))"
        and "errKind err = KNotTextFile" by simp_all
      then show ?thesis by blast
    next
      case size
      with fetch(3) have "\<exists>sz. err = Wrapped ''download failed'' (ErrFileTooLarge sz (MaxSize (config d)))"
        and "errKind err = KFileTooLarge" by simp_all
      then show ?thesis by blast
    next
      case rbody
      with fetch(3) have "\<exists>msg. err = Wrapped ''download failed''
                        (Wrapped ''failed to read response body'' (LibError msg))"
        and "errKind err = KLibrary" by simp_all
      then show ?thesis by blast
    qed
  next
    case store
    from persist_errors [OF store]
    consider (mkdir) msg where "err = Wrapped ''failed to create cache directory'' (LibError msg)"
      | (wfile) msg where "err = Wrapped ''failed to write document to cache'' (LibError msg)"
      by blast
    then show ?thesis
    proof cases
      case mkdir
      then have "\<exists>msg. err = Wrapped ''failed to create cache directory'' (LibError msg)"
        and "errKind err = KLibrary" by simp_all
      then show ?thesis by blast
    next
      case wfile
      then have "\<exists>msg. err = Wrapped ''failed to write document to cache'' (LibError msg)"
        and "errKind err = KLibrary" by simp_all
      then show ?thesis by blast
    qed
  qed
  show "\<forall>e status. ErrDownloadFailed urlStr (urlErrorText ''Get'' e)
                      \<noteq> ErrDownloadFailed urlStr (''HTTP '' @ Itoa status)"
    using transport_reason_not_status by blast
  show "\<forall>s s'. ''HTTP '' @ Itoa s = ''HTTP '' @ Itoa s' \<longrightarrow> s = s'"
    by (auto dest: Itoa_inj)
qed

lemma refused_download:
  "fst (Download (exampleEnv refusingServer) (exampleDownloader 10) emptyWorld exampleURL)
     = Inl (Wrapped ''download failed''
              (ErrDownloadFailed exampleURL
                 ''Get \"https://example.com/a.txt\": dial tcp: connection refused''))"
  by (simp add: Download_def validateURL_def GetCachedPath_def osStat_def useCache_def
      downloadWithValidation_def NewRequest_def Do_def exampleEnv_def refusingServer_def
      emptyWorld_def urlErrorText_def Let_def)

lemma Itoa_404: "Itoa 404 = ''404''"
  by code_simp

lemma notFound_download:
  "fst (Download (exampleEnv notFoundServer) (exampleDownloader 10) emptyWorld exampleURL)
     = Inl (Wrapped ''download failed'' (ErrDownloadFailed exampleURL ''HTTP 404''))"
  by (simp add: Download_def validateURL_def GetCachedPath_def osStat_def useCache_def
      downloadWithValidation_def NewRequest_def Do_def exampleEnv_def notFoundServer_def
      emptyWorld_def Itoa_404 Let_def)

theorem Download_error_kinds_witness:
  "(\<exists>w'. Download (exampleEnv notFoundServer) (exampleDownloader 10) emptyWorld exampleURL
           = (Inl (Wrapped ''download failed'' (ErrDownloadFailed exampleURL ''HTTP 404'')), w'))
   \<and> errKind (Wrapped ''download failed'' (ErrDownloadFailed exampleURL ''HTTP 404'')) = KDownloadFailed
   \<and> ErrDownloadFailed exampleURL (urlErrorText ''Get'' (''\"u\"'', ''timeout''))
       \<noteq> ErrDownloadFailed exampleURL (''HTTP '' @ Itoa 404)"
proof -
  have run: "Download (exampleEnv notFoundServer) (exampleDownloader 10) emptyWorld exampleURL
           = (Inl (Wrapped ''download failed'' (ErrDownloadFailed exampleURL ''HTTP 404'')),
              snd (Download (exampleEnv notFoundServer) (exampleDownloader 10) emptyWorld exampleURL))"
    using notFound_download by (metis prod.collapse)
  from Download_error_kinds [OF run]
  have "errKind (Wrapped ''download failed'' (ErrDownloadFailed exampleURL ''HTTP 404'')) = KDownloadFailed"
    and "ErrDownloadFailed exampleURL (urlErrorText ''Get'' (''\"u\"'', ''timeout''))
       \<noteq> ErrDownloadFailed exampleURL (''HTTP '' @ Itoa 404)"
    by auto
  with run show ?thesis by blast
qed

text \<open>
  Claim C8, as stated, fails: the error of a transport failure and the error of a 404
  response are of the same kind.
\<close>

theorem transport_and_status_same_kind_counterexample:
  "fst (Download (exampleEnv refusingServer) (exampleDownloader 10) emptyWorld exampleURL)
     = Inl (Wrapped ''download failed''
              (ErrDownloadFailed exampleURL
                 ''Get \"https://example.com/a.txt\": dial tcp: connection refused''))
   \<and> fst (Download (exampleEnv notFoundServer) (exampleDownloader 10) emptyWorld exampleURL)
     = Inl (Wrapped ''download failed'' (ErrDownloadFailed exampleURL ''HTTP 404''))
   \<and> errKind (Wrapped ''download failed''
              (ErrDownloadFailed exampleURL
                 ''Get \"https://example.com/a.txt\": dial tcp: connection refused''))
     = errKind (Wrapped ''download failed'' (ErrDownloadFailed exampleURL ''HTTP 404''))"
  by (simp add: refused_download notFound_download)











subsection \<open>Hexadecimal keys\<close>















subsection \<open>Content and metadata files\<close>






lemma Download_persist:
  assumes "validateURL en urlStr = Inr ()"
      and "GetCachedPath en d w urlStr = (cachedPath, ex, cerr)"
      and "useCache en d
             (case cerr of
                Some err \<Rightarrow> logf w Warn ''Failed to check cache for %s: %v'' [S urlStr, E err]
              | None \<Rightarrow> w) urlStr ex = (False, w2)"
      and "downloadWithValidation en d (logf w2 Info ''Downloading document from %s'' [S urlStr]) urlStr
             = (Inr (content, meta), w4)"
  shows "Download en d w urlStr = persist en d w4 urlStr content meta"
  using assms by (simp add: Download_def Let_def)



subsection \<open>Cache keys\<close>



















end
